theory Spec2Isabelle
  imports Complex_Main
begin

section \<open>Floating-point values as the script sees them\<close>

text \<open>
  The script computes on IEEE doubles. A double is a real number or one of the three
  special values: \<open>float('inf')\<close> starts the running minimum, the mean of an empty
  selection is NaN, and every ordered comparison with NaN is false.
\<close>

datatype pyfloat = Fin real | PInf | NInf | NaN

fun fl_abs :: "pyfloat \<Rightarrow> pyfloat" where
  "fl_abs (Fin x) = Fin \<bar>x\<bar>"
| "fl_abs PInf = PInf"
| "fl_abs NInf = PInf"
| "fl_abs NaN = NaN"

text \<open>The comparison \<open>a < b\<close> of two doubles: false as soon as one side is NaN.\<close>

fun fl_less :: "pyfloat \<Rightarrow> pyfloat \<Rightarrow> bool" where
  "fl_less (Fin x) (Fin y) = (x < y)"
| "fl_less (Fin _) PInf = True"
| "fl_less NInf (Fin _) = True"
| "fl_less NInf PInf = True"
| "fl_less _ _ = False"


subsection \<open>Rounding to a double\<close>

text \<open>
  The result of an arithmetic operation on doubles is the exact result rounded to the
  nearest double, ties to the even significand, and an infinity when the rounded value
  leaves the range. A double has a significand of 53 bits and a quantum of at least
  \<open>2 ^ - 1074\<close>; the largest double is \<open>2 ^ 1024 - 2 ^ 971\<close>.

  \<open>pow2 e\<close> is the power of two with an integer exponent. \<open>expo a\<close> is the largest
  \<open>e\<close> from \<open>- 1075\<close> on with \<open>2 ^ e \<le> a\<close>, found by bisection (\<open>- 1075\<close> when there is
  none), so that the quantum of the doubles around \<open>a\<close> is \<open>2 ^ (expo a - 52)\<close>, or
  \<open>2 ^ - 1074\<close> for the subnormal ones.
\<close>

definition pow2 :: "int \<Rightarrow> real" where
  "pow2 e = (if 0 \<le> e then 2 ^ nat e else 1 / 2 ^ nat (- e))"

fun expo_search :: "nat list \<Rightarrow> int \<Rightarrow> real \<Rightarrow> int" where
  "expo_search [] e a = e"
| "expo_search (w # ws) e a =
     (if pow2 (e + int w) \<le> a then expo_search ws (e + int w) a else expo_search ws e a)"

definition expo :: "real \<Rightarrow> int" where
  "expo a = expo_search [2048, 1024, 512, 256, 128, 64, 32, 16, 8, 4, 2, 1] (- 1075) a"

text \<open>The integer nearest to \<open>r\<close>, the even one of the two when \<open>r\<close> lies halfway.\<close>

definition round_even :: "real \<Rightarrow> int" where
  "round_even r =
     (let f = \<lfloor>r\<rfloor>; d = r - of_int f
      in if d < 1 / 2 then f else if 1 / 2 < d then f + 1 else if even f then f else f + 1)"

text \<open>
  \<open>rnd x\<close> is the double that an operation with the exact result \<open>x\<close> returns:
  \<open>rnd_at q x\<close> rounds the magnitude of \<open>x\<close> to a multiple of the quantum \<open>2 ^ q\<close>, and
  \<open>rnd_pack\<close> gives the sign back or overflows to an infinity.
\<close>

definition rnd_pack :: "real \<Rightarrow> real \<Rightarrow> pyfloat" where
  "rnd_pack x y =
     (if pow2 1024 \<le> y then (if 0 < x then PInf else NInf)
      else Fin (if 0 \<le> x then y else - y))"

definition rnd_at :: "int \<Rightarrow> real \<Rightarrow> pyfloat" where
  "rnd_at q x = rnd_pack x (of_int (round_even (\<bar>x\<bar> / pow2 q)) * pow2 q)"

definition rnd :: "real \<Rightarrow> pyfloat" where
  "rnd x = rnd_at (max (expo \<bar>x\<bar> - 52) (- 1074)) x"

text \<open>Subtraction, addition and the division by a count, on doubles.\<close>

fun dbl_sub :: "pyfloat \<Rightarrow> pyfloat \<Rightarrow> pyfloat" where
  "dbl_sub NaN _ = NaN"
| "dbl_sub _ NaN = NaN"
| "dbl_sub (Fin x) (Fin y) = rnd (x - y)"
| "dbl_sub (Fin _) PInf = NInf"
| "dbl_sub (Fin _) NInf = PInf"
| "dbl_sub PInf PInf = NaN"
| "dbl_sub PInf _ = PInf"
| "dbl_sub NInf NInf = NaN"
| "dbl_sub NInf _ = NInf"

fun dbl_add :: "pyfloat \<Rightarrow> pyfloat \<Rightarrow> pyfloat" where
  "dbl_add NaN _ = NaN"
| "dbl_add _ NaN = NaN"
| "dbl_add (Fin x) (Fin y) = rnd (x + y)"
| "dbl_add (Fin _) PInf = PInf"
| "dbl_add (Fin _) NInf = NInf"
| "dbl_add PInf NInf = NaN"
| "dbl_add PInf _ = PInf"
| "dbl_add NInf PInf = NaN"
| "dbl_add NInf _ = NInf"

fun dbl_div_count :: "pyfloat \<Rightarrow> nat \<Rightarrow> pyfloat" where
  "dbl_div_count _ 0 = NaN"
| "dbl_div_count (Fin x) n = rnd (x / real n)"
| "dbl_div_count PInf n = PInf"
| "dbl_div_count NInf n = NInf"
| "dbl_div_count NaN n = NaN"

section \<open>The simulation table\<close>

text \<open>
  One row of the CSV file, with the columns the analysis reads. A numeric cell that is
  empty in the file is NaN in the data frame; \<open>AvgTotal\<close> is \<open>None\<close> there.
\<close>

record sim_row =
  Grade :: int
  PosX :: real
  PosY :: real
  AvgTotal :: "real option"

text \<open>\<open>df_perf = df[df['Grade'] > 0]\<close>\<close>

definition df_perf :: "sim_row list \<Rightarrow> sim_row list" where
  "df_perf df = filter (\<lambda>r. Grade r > 0) df"

text \<open>\<open>df_perf[df_perf['Grade'] == g]\<close>\<close>

definition grade_rows :: "sim_row list \<Rightarrow> int \<Rightarrow> sim_row list" where
  "grade_rows df g = filter (\<lambda>r. Grade r = g) (df_perf df)"


text \<open>
  \<open>Series.std()\<close> of pandas: NaN entries are skipped, the divisor is \<open>n - 1\<close>
  (\<open>ddof = 1\<close>), and the result is NaN when fewer than two values remain.
\<close>

definition series_std :: "real option list \<Rightarrow> pyfloat" where
  "series_std vs =
     (let xs = List.map_filter id vs; n = length xs
      in if n \<le> 1 then NaN
         else let m = sum_list xs / real n
              in Fin (sqrt (sum_list (map (\<lambda>x. (x - m)\<^sup>2) xs) / real (n - 1))))"

definition grades :: "int list" where
  "grades = [1, 2, 3, 4]"


definition sim_stds :: "sim_row list \<Rightarrow> pyfloat list" where
  "sim_stds df = map (\<lambda>g. series_std (map AvgTotal (grade_rows df g))) grades"

section \<open>The clinical reference table\<close>

text \<open>
  \<open>patient_freq_abg[grade]['avg_abg']\<close>, for the four grades of the table. The literals
  \<open>10.0\<close> and \<open>32.5\<close> are doubles; \<open>20.8\<close> and \<open>19.2\<close> are not, and the script
  holds the doubles nearest to them.
\<close>

definition patient_avg_abg :: "int \<Rightarrow> real" where
  "patient_avg_abg g =
     (if g = 1 then 10 else if g = 2 then 5854679515581645 / 2 ^ 48
      else if g = 3 then 32.5 else 5404319552844595 / 2 ^ 48)"

section \<open>The best-position search\<close>

text \<open>
  The mean of a selection as the search computes it, in doubles: NaN entries are skipped,
  the mean of no value is NaN, otherwise the sum of the values is divided by their number.
  Every addition and the division round, and the sum can overflow to an infinity. The
  order of the additions is the library's; they are taken here from left to right.
\<close>

definition dbl_mean :: "real option list \<Rightarrow> pyfloat" where
  "dbl_mean vs =
     (let xs = List.map_filter id vs
      in if xs = [] then NaN
         else dbl_div_count (fold (\<lambda>x s. dbl_add s (Fin x)) xs (Fin 0)) (length xs))"

text \<open>\<open>positions = sorted(g_data['PosX'].unique())\<close>\<close>

definition positions :: "sim_row list \<Rightarrow> real list" where
  "positions g_data = sort (remdups (map PosX g_data))"

text \<open>
  \<open>g_data[(g_data['PosX'] == px) & (g_data['PosY'] == py)]['AvgTotal'].mean()\<close>
\<close>

definition cell_rows :: "sim_row list \<Rightarrow> real \<Rightarrow> real \<Rightarrow> sim_row list" where
  "cell_rows g_data px py = filter (\<lambda>r. PosX r = px \<and> PosY r = py) g_data"

definition sim_val :: "sim_row list \<Rightarrow> real \<Rightarrow> real \<Rightarrow> pyfloat" where
  "sim_val g_data px py = dbl_mean (map AvgTotal (cell_rows g_data px py))"

text \<open>\<open>error = abs(sim_val - clinical_target)\<close>\<close>

definition cell_error :: "sim_row list \<Rightarrow> real \<Rightarrow> real \<times> real \<Rightarrow> pyfloat" where
  "cell_error g_data clinical_target c =
     fl_abs (dbl_sub (sim_val g_data (fst c) (snd c)) (Fin clinical_target))"

text \<open>
  The state of the search is the pair \<open>(min_error, best_pos)\<close>. The body of the inner
  loop, at the cell \<open>(px, py)\<close>:
  \<^verbatim>\<open>
      if error < min_error:
          min_error = error
          best_pos = (px, py)
  \<close>
\<close>

type_synonym search_state = "pyfloat \<times> (real \<times> real)"

definition visit :: "sim_row list \<Rightarrow> real \<Rightarrow> real \<times> real \<Rightarrow> search_state \<Rightarrow> search_state" where
  "visit g_data clinical_target c st =
     (let error = cell_error g_data clinical_target c
      in if fl_less error (fst st) then (error, c) else st)"

text \<open>
  The two nested loops, \<open>for py in positions: for px in positions:\<close>, started from
  \<open>min_error = float('inf')\<close> and \<open>best_pos = (0.5, 0.5)\<close>; the result is the entry
  \<open>{'pos': best_pos, 'error': min_error}\<close>, here the pair \<open>(min_error, best_pos)\<close>.
  For a grade, \<open>g_data\<close> is \<open>grade_rows df grade\<close> and \<open>clinical_target\<close> is
  \<open>patient_avg_abg grade\<close>.
\<close>

definition search_init :: search_state where
  "search_init = (PInf, (0.5, 0.5))"

definition best_position :: "sim_row list \<Rightarrow> real \<Rightarrow> search_state" where
  "best_position g_data clinical_target =
     (let ps = positions g_data
      in fold (\<lambda>py. fold (\<lambda>px. visit g_data clinical_target (px, py)) ps) ps search_init)"

text \<open>The cells in the order the loops visit them: ascending Y, then ascending X.\<close>

definition scan_cells :: "real list \<Rightarrow> (real \<times> real) list" where
  "scan_cells ps = concat (map (\<lambda>py. map (\<lambda>px. (px, py)) ps) ps)"

text \<open>
  The order of the scan on cells: \<open>a\<close> is visited before \<open>b\<close> when its Y is smaller,
  or the Y are equal and its X is smaller.
\<close>

definition scan_before :: "real \<times> real \<Rightarrow> real \<times> real \<Rightarrow> bool" where
  "scan_before a b = (snd a < snd b \<or> (snd a = snd b \<and> fst a < fst b))"

text \<open>
  What the search has established after the cells \<open>cs\<close>, started from
  \<open>(float('inf'), d)\<close>: either no cell so far had a finite error and the state is still
  the initial one, or the state holds a visited cell and its finite error, every earlier
  cell with a finite error is strictly worse, and every later one is not better.
\<close>

definition scan_inv ::
  "sim_row list \<Rightarrow> real \<Rightarrow> real \<times> real \<Rightarrow> (real \<times> real) list \<Rightarrow> search_state \<Rightarrow> bool" where
  "scan_inv g t d cs st =
     (if \<forall>c\<in>set cs. \<forall>e. cell_error g t c \<noteq> Fin e then st = (PInf, d)
      else \<exists>pre post e. cs = pre @ snd st # post \<and> cell_error g t (snd st) = Fin e \<and> fst st = Fin e
             \<and> (\<forall>c\<in>set pre. \<forall>e'. cell_error g t c = Fin e' \<longrightarrow> e < e')
             \<and> (\<forall>c\<in>set post. \<forall>e'. cell_error g t c = Fin e' \<longrightarrow> e \<le> e'))"

section \<open>Reference notions for the statistics\<close>




section \<open>Text\<close>

text \<open>
  A Python string is a sequence of code points; a code point is a natural number here.
  \<open>ascii\<close> turns an ASCII literal into such a sequence.
\<close>

type_synonym ustr = "nat list"

definition ascii :: "string \<Rightarrow> ustr" where
  "ascii s = map of_char s"

text \<open>\<open>s.startswith(sub)\<close> and \<open>sub in s\<close>.\<close>

fun starts_with :: "'a list \<Rightarrow> 'a list \<Rightarrow> bool" where
  "starts_with s [] = True"
| "starts_with [] (p # ps) = False"
| "starts_with (c # cs) (p # ps) = (c = p \<and> starts_with cs ps)"

fun contains :: "'a list \<Rightarrow> 'a list \<Rightarrow> bool" where
  "contains sub [] = (sub = [])"
| "contains sub (c # cs) = (starts_with (c # cs) sub \<or> contains sub cs)"

text \<open>
  \<open>s.split(sep)\<close> for a separator that is not empty: the text is cut at every
  occurrence of the separator, found from left to right without overlap. \<open>acc\<close> holds
  the piece being read, reversed.
\<close>

fun split_acc :: "'a list \<Rightarrow> 'a list \<Rightarrow> 'a list \<Rightarrow> 'a list list" where
  "split_acc sep acc [] = [rev acc]"
| "split_acc sep acc (c # cs) =
     (if sep \<noteq> [] \<and> starts_with (c # cs) sep
      then rev acc # split_acc sep [] (drop (length sep) (c # cs))
      else split_acc sep (c # acc) cs)"

definition py_split :: "'a list \<Rightarrow> 'a list \<Rightarrow> 'a list list" where
  "py_split s sep = split_acc sep [] s"

text \<open>The code points for which \<open>str.isspace\<close> holds.\<close>

definition is_space :: "nat \<Rightarrow> bool" where
  "is_space c =
     (c \<in> set [9, 10, 11, 12, 13, 28, 29, 30, 31, 32, 133, 160, 5760,
                8232, 8233, 8239, 8287, 12288] \<or> (8192 \<le> c \<and> c \<le> 8202))"

text \<open>\<open>s.strip()\<close> and \<open>s.split()\<close>, both on white space.\<close>

definition py_strip :: "ustr \<Rightarrow> ustr" where
  "py_strip s = rev (dropWhile is_space (rev (dropWhile is_space s)))"

fun words_acc :: "ustr \<Rightarrow> ustr \<Rightarrow> ustr list" where
  "words_acc acc [] = (if acc = [] then [] else [rev acc])"
| "words_acc acc (c # cs) =
     (if is_space c then (if acc = [] then words_acc [] cs else rev acc # words_acc [] cs)
      else words_acc (c # acc) cs)"

definition py_words :: "ustr \<Rightarrow> ustr list" where
  "py_words s = words_acc [] s"

text \<open>
  The literals of the parser. The separator of patient blocks is the regular expression
  of one or more heavy horizontal bars (U+2501) followed by a line feed, the left
  lenticular bracket (U+3010), the word for "patient" (U+D658 U+C790) and a space.
\<close>

definition heavy_bar :: nat where
  "heavy_bar = 9473"

definition block_head :: ustr where
  "block_head = [10, 12304, 54872, 51088, 32]"

definition right_bracket :: ustr where
  "right_bracket = [12305]"

text \<open>The pre-operative marker: \<open>[\<close>, U+C218, U+C220, U+C804, \<open>]\<close>.\<close>

definition pre_op_marker :: ustr where
  "pre_op_marker = [91, 49688, 49696, 51204, 93]"

text \<open>The box corner U+2514 that closes the pre-operative section.\<close>

definition box_corner :: ustr where
  "box_corner = [9492]"

text \<open>The section markers: U+3010, a space, then \<open>ICW\<close> or \<open>CWD\<close>.\<close>

definition icw_marker :: ustr where
  "icw_marker = 12304 # ascii '' ICW''"

definition cwd_marker :: ustr where
  "cwd_marker = 12304 # ascii '' CWD''"

text \<open>
  \<open>re.split(pattern, s)\<close> for the separator of patient blocks. A match at a place is
  the longest run of bars there, not empty, followed by the head of a block; the search
  goes on after the match.
\<close>

definition bar_run :: "ustr \<Rightarrow> ustr" where
  "bar_run s = takeWhile (\<lambda>c. c = heavy_bar) s"

fun re_split_acc :: "ustr \<Rightarrow> ustr \<Rightarrow> ustr list" where
  "re_split_acc acc [] = [rev acc]"
| "re_split_acc acc (c # cs) =
     (if bar_run (c # cs) \<noteq> [] \<and>
         starts_with (drop (length (bar_run (c # cs))) (c # cs)) block_head
      then rev acc # re_split_acc [] (drop (length (bar_run (c # cs)) + length block_head) (c # cs))
      else re_split_acc (c # acc) cs)"

definition re_split :: "ustr \<Rightarrow> ustr list" where
  "re_split s = re_split_acc [] s"

section \<open>Exceptions\<close>

text \<open>
  An operation that can raise returns a sum: \<open>Inl\<close> the exception, \<open>Inr\<close> the value.
  \<open>xs[i]\<close> and \<open>xs[-1]\<close> raise \<open>IndexError\<close> out of range; \<open>float(s)\<close> raises
  \<open>ValueError\<close> on a text it cannot read. The reading of numerals itself is the
  built-in's: it is the parameter \<open>pf\<close>, \<open>None\<close> where \<open>float\<close> raises.
\<close>

datatype exn = IndexError | ValueError

definition then_do :: "exn + 'a \<Rightarrow> ('a \<Rightarrow> exn + 'b) \<Rightarrow> exn + 'b" where
  "then_do m f = (case m of Inl e \<Rightarrow> Inl e | Inr x \<Rightarrow> f x)"

text \<open>
  \<open>try: ... except: ...\<close> runs the handler on the exception, and a \<open>for\<close> loop
  whose body can raise stops at the first exception and passes it on.
\<close>

definition try_except :: "exn + 'a \<Rightarrow> (exn \<Rightarrow> exn + 'a) \<Rightarrow> exn + 'a" where
  "try_except m handler = (case m of Inl e \<Rightarrow> handler e | Inr x \<Rightarrow> Inr x)"

fun for_each :: "('a \<Rightarrow> 's \<Rightarrow> exn + 's) \<Rightarrow> 'a list \<Rightarrow> 's \<Rightarrow> exn + 's" where
  "for_each body [] s = Inr s"
| "for_each body (x # xs) s = then_do (body x s) (for_each body xs)"

definition py_item :: "'a list \<Rightarrow> nat \<Rightarrow> exn + 'a" where
  "py_item xs i = (if i < length xs then Inr (xs ! i) else Inl IndexError)"

definition py_last_item :: "'a list \<Rightarrow> exn + 'a" where
  "py_last_item xs = (if xs = [] then Inl IndexError else Inr (last xs))"

definition py_float :: "(ustr \<Rightarrow> pyfloat option) \<Rightarrow> ustr \<Rightarrow> exn + pyfloat" where
  "py_float pf s = (case pf s of None \<Rightarrow> Inl ValueError | Some v \<Rightarrow> Inr v)"

section \<open>The patient-record parser\<close>

text \<open>
  A dictionary from frequency to threshold is an association list in insertion order;
  \<open>d[k] = v\<close> is \<open>dict_set\<close>, \<open>k in d\<close> and \<open>d[k]\<close> are \<open>map_of\<close>, and the
  dictionary is true when it is not empty. (Python keeps one entry per NaN key object,
  the list keeps one NaN key; only the six canonical keys are ever looked up.)
\<close>

type_synonym fdict = "(pyfloat \<times> pyfloat) list"

fun dict_set :: "pyfloat \<Rightarrow> pyfloat \<Rightarrow> fdict \<Rightarrow> fdict" where
  "dict_set k v [] = [(k, v)]"
| "dict_set k v (p # ps) = (if fst p = k then (k, v) # ps else p # dict_set k v ps)"

text \<open>
  One \<open>kHz=...dB\<close> token of \<open>parse_line\<close>:
  \<^verbatim>\<open>
      freq = part.split('kHz=')[0].strip().split()[-1]
      val = part.split('kHz=')[1].split('dB')[0]
      if val != 'nan':
          values[float(freq)] = float(val)
  \<close>
  The right-hand side of the assignment is evaluated first. The result is the entry to
  store, if any, or the exception raised.
\<close>

definition token_entry ::
  "(ustr \<Rightarrow> pyfloat option) \<Rightarrow> ustr \<Rightarrow> exn + (pyfloat \<times> pyfloat) option" where
  "token_entry pf part =
     then_do (py_item (py_split part (ascii ''kHz='')) 0) (\<lambda>head.
     then_do (py_last_item (py_words (py_strip head))) (\<lambda>freq.
     then_do (py_item (py_split part (ascii ''kHz='')) 1) (\<lambda>rest.
     then_do (py_item (py_split rest (ascii ''dB'')) 0) (\<lambda>val.
       if val \<noteq> ascii ''nan''
       then then_do (py_float pf val) (\<lambda>v.
            then_do (py_float pf freq) (\<lambda>f. Inr (Some (f, v))))
       else Inr None))))"

text \<open>The token inside its \<open>try: ... except: pass\<close>.\<close>

definition store_token :: "(ustr \<Rightarrow> pyfloat option) \<Rightarrow> ustr \<Rightarrow> fdict \<Rightarrow> fdict" where
  "store_token pf part values =
     (case token_entry pf part of
        Inr (Some (f, v)) \<Rightarrow> dict_set f v values
      | Inr None \<Rightarrow> values
      | Inl e \<Rightarrow> values)"

text \<open>
  The loop \<open>for part in line.split('|'): if 'kHz=' in part: ...\<close> on a dictionary:
  first its body for one part, then the loop.
\<close>

definition store_part :: "(ustr \<Rightarrow> pyfloat option) \<Rightarrow> ustr \<Rightarrow> fdict \<Rightarrow> fdict" where
  "store_part pf part values =
     (if contains (ascii ''kHz='') part then store_token pf part values else values)"

definition store_parts :: "(ustr \<Rightarrow> pyfloat option) \<Rightarrow> ustr \<Rightarrow> fdict \<Rightarrow> fdict" where
  "store_parts pf line values = fold (store_part pf) (py_split line (ascii ''|'')) values"

definition parse_line :: "(ustr \<Rightarrow> pyfloat option) \<Rightarrow> ustr \<Rightarrow> ustr \<Rightarrow> fdict" where
  "parse_line pf line prefix = (if contains prefix line then store_parts pf line [] else [])"

text \<open>
  The loop over the lines of the pre-operative section, for one side:
  \<^verbatim>\<open>
      for line in pre_op.split('\n'):
          if prefix_b in line: bone = parse_line(line, prefix_b)
          if prefix_a in line: air = parse_line(line, prefix_a)
  \<close>
\<close>

definition side_dicts ::
  "(ustr \<Rightarrow> pyfloat option) \<Rightarrow> ustr \<Rightarrow> ustr \<Rightarrow> ustr \<Rightarrow> fdict \<times> fdict" where
  "side_dicts pf pre_op prefix_b prefix_a =
     fold (\<lambda>line (bone, air).
             (if contains prefix_b line then parse_line pf line prefix_b else bone,
              if contains prefix_a line then parse_line pf line prefix_a else air))
       (py_split pre_op [10]) ([], [])"

text \<open>
  Subtraction, addition and division by a count on thresholds, and \<open>np.mean\<close> of a
  list. The arithmetic on thresholds is written on the real numbers, without rounding.
\<close>

fun fl_sub :: "pyfloat \<Rightarrow> pyfloat \<Rightarrow> pyfloat" where
  "fl_sub NaN _ = NaN"
| "fl_sub _ NaN = NaN"
| "fl_sub (Fin x) (Fin y) = Fin (x - y)"
| "fl_sub (Fin _) PInf = NInf"
| "fl_sub (Fin _) NInf = PInf"
| "fl_sub PInf PInf = NaN"
| "fl_sub PInf _ = PInf"
| "fl_sub NInf NInf = NaN"
| "fl_sub NInf _ = NInf"

fun fl_add :: "pyfloat \<Rightarrow> pyfloat \<Rightarrow> pyfloat" where
  "fl_add NaN _ = NaN"
| "fl_add _ NaN = NaN"
| "fl_add (Fin x) (Fin y) = Fin (x + y)"
| "fl_add (Fin _) PInf = PInf"
| "fl_add (Fin _) NInf = NInf"
| "fl_add PInf NInf = NaN"
| "fl_add PInf _ = PInf"
| "fl_add NInf PInf = NaN"
| "fl_add NInf _ = NInf"

fun fl_div_count :: "pyfloat \<Rightarrow> nat \<Rightarrow> pyfloat" where
  "fl_div_count _ 0 = NaN"
| "fl_div_count (Fin x) n = Fin (x / real n)"
| "fl_div_count PInf n = PInf"
| "fl_div_count NInf n = NInf"
| "fl_div_count NaN n = NaN"

definition np_mean :: "pyfloat list \<Rightarrow> pyfloat" where
  "np_mean xs = fl_div_count (fold (\<lambda>x s. fl_add s x) xs (Fin 0)) (length xs)"

text \<open>
  The dictionary appended for a side: the group-restricted parser stores \<open>avg_abg\<close> and
  \<open>abg_values\<close>, the full parser stores \<open>id\<close> and \<open>freqs\<close> as well. Then the canonical
  frequencies in kHz.
\<close>

record abg_entry =
  avg_abg :: pyfloat
  abg_values :: "pyfloat list"

record patient = abg_entry +
  patient_id :: ustr
  freqs :: "real list"

definition canonical_freqs :: "real list" where
  "canonical_freqs = [0.25, 0.5, 1, 2, 3, 4]"

text \<open>
  The frequencies of the loop \<open>for freq in [0.25, 0.5, 1, 2, 3, 4]\<close> that pass the test
  \<open>freq in bone and freq in air\<close>, each with \<open>air[freq] - bone[freq]\<close>.
\<close>

definition common_abg :: "fdict \<Rightarrow> fdict \<Rightarrow> (real \<times> pyfloat) list" where
  "common_abg bone air =
     List.map_filter (\<lambda>freq.
        case (map_of bone (Fin freq), map_of air (Fin freq)) of
          (Some b, Some a) \<Rightarrow> Some (freq, fl_sub a b)
        | _ \<Rightarrow> None) canonical_freqs"

text \<open>
  \<^verbatim>\<open>
      if bone and air:
          ...
          if abg_values:
              avg_abg = np.mean(abg_values)
              all_patients.append({'id': f"{patient_id}_{side}", ...})
  \<close>
  The result is the record appended, if any.
\<close>

definition side_record :: "ustr \<Rightarrow> ustr \<Rightarrow> fdict \<Rightarrow> fdict \<Rightarrow> patient option" where
  "side_record pid side bone air =
     (if bone \<noteq> [] \<and> air \<noteq> []
      then let abgs = map snd (common_abg bone air);
               freqs_used = map (\<lambda>p. fst p * 1000) (common_abg bone air)
           in if abgs \<noteq> []
              then Some \<lparr>avg_abg = np_mean abgs, abg_values = abgs,
                         patient_id = pid @ ascii ''_'' @ side, freqs = freqs_used\<rparr>
              else None
      else None)"

definition sides :: "(ustr \<times> ustr \<times> ustr) list" where
  "sides = [(ascii ''R'', ascii ''R_B'', ascii ''R_A''),
            (ascii ''L'', ascii ''L_B'', ascii ''L_A'')]"

text \<open>
  The body of the \<open>try\<close> for one block, on the list of records so far. Every operation
  that can raise stands before the first \<open>append\<close>, so an exception leaves the list as it
  was at the start of the block.
\<close>

definition block_body ::
  "(ustr \<Rightarrow> pyfloat option) \<Rightarrow> ustr \<Rightarrow> patient list \<Rightarrow> exn + patient list" where
  "block_body pf block all_patients =
     then_do (py_item (py_split block right_bracket) 0) (\<lambda>pid.
       if \<not> contains pre_op_marker block then Inr all_patients
       else
         then_do (py_item (py_split block pre_op_marker) 1) (\<lambda>rest.
         then_do (py_item (py_split rest box_corner) 0) (\<lambda>pre_op.
           Inr (fold (\<lambda>(side, prefix_b, prefix_a) ps.
                        case side_dicts pf pre_op prefix_b prefix_a of
                          (bone, air) \<Rightarrow>
                            (case side_record pid side bone air of
                               None \<Rightarrow> ps
                             | Some p \<Rightarrow> ps @ [p]))
                  sides all_patients))))"

text \<open>
  \<open>try: ... except Exception as e: continue\<close>: the handler goes on to the next block
  with the list as the block found it.
\<close>

definition try_block ::
  "(ustr \<Rightarrow> pyfloat option) \<Rightarrow> ustr \<Rightarrow> patient list \<Rightarrow> exn + patient list" where
  "try_block pf block all_patients =
     try_except (block_body pf block all_patients) (\<lambda>e. Inr all_patients)"

text \<open>
  \<open>load_all_patient_abg\<close> on the text \<open>content\<close> that \<open>f.read()\<close> returned: the loop
  \<open>for block in patient_blocks[1:]\<close> over the pieces of \<open>re.split\<close>, started from the
  empty list. The result is the list returned, or the exception that leaves the function.
\<close>

definition load_all_patient_abg ::
  "(ustr \<Rightarrow> pyfloat option) \<Rightarrow> ustr \<Rightarrow> exn + patient list" where
  "load_all_patient_abg pf content = for_each (try_block pf) (drop 1 (re_split content)) []"

section \<open>The group-restricted parser\<close>

text \<open>
  The token of the group parser reads the frequency as a number first:
  \<^verbatim>\<open>
      freq = float(part.split('kHz=')[0].strip().split()[-1])
      val = part.split('kHz=')[1].split('dB')[0]
      if val != 'nan':
          target[freq] = float(val)
  \<close>
\<close>

definition group_token_entry ::
  "(ustr \<Rightarrow> pyfloat option) \<Rightarrow> ustr \<Rightarrow> exn + (pyfloat \<times> pyfloat) option" where
  "group_token_entry pf part =
     then_do (py_item (py_split part (ascii ''kHz='')) 0) (\<lambda>head.
     then_do (py_last_item (py_words (py_strip head))) (\<lambda>w.
     then_do (py_float pf w) (\<lambda>freq.
     then_do (py_item (py_split part (ascii ''kHz='')) 1) (\<lambda>rest.
     then_do (py_item (py_split rest (ascii ''dB'')) 0) (\<lambda>val.
       if val \<noteq> ascii ''nan''
       then then_do (py_float pf val) (\<lambda>v. Inr (Some (freq, v)))
       else Inr None)))))"

definition group_store_token :: "(ustr \<Rightarrow> pyfloat option) \<Rightarrow> ustr \<Rightarrow> fdict \<Rightarrow> fdict" where
  "group_store_token pf part target =
     (case group_token_entry pf part of
        Inr (Some (f, v)) \<Rightarrow> dict_set f v target
      | Inr None \<Rightarrow> target
      | Inl e \<Rightarrow> target)"

definition group_store_parts :: "(ustr \<Rightarrow> pyfloat option) \<Rightarrow> ustr \<Rightarrow> fdict \<Rightarrow> fdict" where
  "group_store_parts pf line target =
     fold (\<lambda>part t. if contains (ascii ''kHz='') part then group_store_token pf part t else t)
       (py_split line (ascii ''|'')) target"

text \<open>
  The loop over the lines for one side. The tokens of a line go into the dictionary the
  side already has:
  \<^verbatim>\<open>
      for line in pre_op.split('\n'):
          for prefix, target in [(prefix_b, bone), (prefix_a, air)]:
              if prefix in line:
                  for part in line.split('|'): ...
  \<close>
\<close>

definition group_side_dicts ::
  "(ustr \<Rightarrow> pyfloat option) \<Rightarrow> ustr \<Rightarrow> ustr \<Rightarrow> ustr \<Rightarrow> fdict \<times> fdict" where
  "group_side_dicts pf pre_op prefix_b prefix_a =
     fold (\<lambda>line (bone, air).
             (if contains prefix_b line then group_store_parts pf line bone else bone,
              if contains prefix_a line then group_store_parts pf line air else air))
       (py_split pre_op [10]) ([], [])"

text \<open>
  \<^verbatim>\<open>
      if bone and air:
          abg_values = [air[f] - bone[f] for f in [0.25, 0.5, 1, 2, 3, 4]
                        if f in bone and f in air]
          if abg_values:
              icw_patients.append({'avg_abg': np.mean(abg_values), 'abg_values': abg_values})
  \<close>
\<close>

definition group_side_record :: "fdict \<Rightarrow> fdict \<Rightarrow> abg_entry option" where
  "group_side_record bone air =
     (if bone \<noteq> [] \<and> air \<noteq> []
      then let abgs = map snd (common_abg bone air)
           in if abgs \<noteq> [] then Some \<lparr>avg_abg = np_mean abgs, abg_values = abgs\<rparr> else None
      else None)"

definition group_block_body ::
  "(ustr \<Rightarrow> pyfloat option) \<Rightarrow> ustr \<Rightarrow> abg_entry list \<Rightarrow> exn + abg_entry list" where
  "group_block_body pf block patients =
     (if \<not> contains pre_op_marker block then Inr patients
      else
        then_do (py_item (py_split block pre_op_marker) 1) (\<lambda>rest.
        then_do (py_item (py_split rest box_corner) 0) (\<lambda>pre_op.
          Inr (fold (\<lambda>(side, prefix_b, prefix_a) ps.
                       case group_side_dicts pf pre_op prefix_b prefix_a of
                         (bone, air) \<Rightarrow>
                           (case group_side_record bone air of
                              None \<Rightarrow> ps
                            | Some p \<Rightarrow> ps @ [p]))
                 sides patients))))"

definition group_try_block ::
  "(ustr \<Rightarrow> pyfloat option) \<Rightarrow> ustr \<Rightarrow> abg_entry list \<Rightarrow> abg_entry list" where
  "group_try_block pf block patients =
     (case group_block_body pf block patients of Inr ps \<Rightarrow> ps | Inl e \<Rightarrow> patients)"

text \<open>
  The loop over the blocks of a section. The script has this loop twice, once for each
  group, with the same text.
\<close>

definition group_parse :: "(ustr \<Rightarrow> pyfloat option) \<Rightarrow> ustr \<Rightarrow> abg_entry list" where
  "group_parse pf section_text =
     fold (group_try_block pf) (drop 1 (re_split section_text)) []"

text \<open>
  The two sections:
  \<^verbatim>\<open>
      icw_section = content.split(ICW)[1].split(CWD)[0] if CWD in content
                    else content.split(ICW)[1]
      cwd_section = content.split(CWD)[1]
  \<close>
  Each is computed under the test that its marker is in the text. The indexing stands
  outside every \<open>try\<close>.
\<close>

definition icw_section :: "ustr \<Rightarrow> exn + ustr" where
  "icw_section content =
     (if contains cwd_marker content
      then then_do (py_item (py_split content icw_marker) 1)
             (\<lambda>s. py_item (py_split s cwd_marker) 0)
      else py_item (py_split content icw_marker) 1)"

definition cwd_section :: "ustr \<Rightarrow> exn + ustr" where
  "cwd_section content = py_item (py_split content cwd_marker) 1"

definition load_patient_by_group ::
  "(ustr \<Rightarrow> pyfloat option) \<Rightarrow> ustr \<Rightarrow> exn + (abg_entry list \<times> abg_entry list)" where
  "load_patient_by_group pf content =
     then_do (if contains icw_marker content
              then then_do (icw_section content) (\<lambda>s. Inr (group_parse pf s))
              else Inr []) (\<lambda>icw_patients.
     then_do (if contains cwd_marker content
              then then_do (cwd_section content) (\<lambda>s. Inr (group_parse pf s))
              else Inr []) (\<lambda>cwd_patients.
       Inr (icw_patients, cwd_patients)))"

section \<open>Reference notions for the parser\<close>





text \<open>
  The records one block contributes: those its \<open>try\<close> body appends to an empty list,
  and none when the body raises.
\<close>

definition block_records :: "(ustr \<Rightarrow> pyfloat option) \<Rightarrow> ustr \<Rightarrow> patient list" where
  "block_records pf block = (case block_body pf block [] of Inr ps \<Rightarrow> ps | Inl e \<Rightarrow> [])"

text \<open>
  The record of one ear side of a pre-operative section, as a list of at most one record.
\<close>

definition side_records ::
  "(ustr \<Rightarrow> pyfloat option) \<Rightarrow> ustr \<Rightarrow> ustr \<Rightarrow> ustr \<times> ustr \<times> ustr \<Rightarrow> patient list" where
  "side_records pf pid pre_op s =
     (case s of (side, prefix_b, prefix_a) \<Rightarrow>
        (case side_dicts pf pre_op prefix_b prefix_a of
           (bone, air) \<Rightarrow>
             (case side_record pid side bone air of None \<Rightarrow> [] | Some p \<Rightarrow> [p])))"

section \<open>The search over the four grades\<close>





section \<open>Properties of the best-position search\<close>

lemma fl_abs_cases: "fl_abs a = NaN \<or> fl_abs a = PInf \<or> (\<exists>e\<ge>0. fl_abs a = Fin e)"
  by (cases a) simp_all

lemma cell_error_cases:
  "cell_error g t c = NaN \<or> cell_error g t c = PInf \<or> (\<exists>e\<ge>0. cell_error g t c = Fin e)"
  unfolding cell_error_def by (rule fl_abs_cases)


lemma cell_error_NaN: "sim_val g (fst c) (snd c) = NaN \<Longrightarrow> cell_error g t c = NaN"
  by (simp add: cell_error_def)

lemma best_position_fold:
  "best_position g t = fold (visit g t) (scan_cells (positions g)) search_init"
proof -
  have "fold (\<lambda>py. fold (\<lambda>px. visit g t (px, py)) xs) ys s
        = fold (visit g t) (concat (map (\<lambda>py. map (\<lambda>px. (px, py)) xs) ys)) s" for xs ys s
    by (induction ys arbitrary: s) (simp_all add: fold_map comp_def)
  then show ?thesis
    by (simp add: best_position_def scan_cells_def Let_def)
qed

lemma visit_NaN: "cell_error g t c = NaN \<Longrightarrow> visit g t c st = st"
  by (simp add: visit_def)

lemma visit_skip: "\<forall>e. cell_error g t c \<noteq> Fin e \<Longrightarrow> visit g t c st = st"
  using cell_error_cases[of g t c] by (auto simp: visit_def)

lemma visit_Fin:
  "cell_error g t c = Fin e \<Longrightarrow>
   visit g t c (m, b) = (if fl_less (Fin e) m then (Fin e, c) else (m, b))"
  by (simp add: visit_def)

lemma scan_invI:
  assumes "cs = pre @ b # post" and "cell_error g t b = Fin e"
    and "\<forall>c\<in>set pre. \<forall>e'. cell_error g t c = Fin e' \<longrightarrow> e < e'"
    and "\<forall>c\<in>set post. \<forall>e'. cell_error g t c = Fin e' \<longrightarrow> e \<le> e'"
  shows "scan_inv g t d cs (Fin e, b)"
proof -
  have "b \<in> set cs" using assms(1) by simp
  then have "\<not> (\<forall>c\<in>set cs. \<forall>e. cell_error g t c \<noteq> Fin e)"
    using assms(2) by blast
  moreover have "\<exists>pre' post' e'. cs = pre' @ b # post' \<and> cell_error g t b = Fin e' \<and> Fin e = Fin e'
             \<and> (\<forall>c\<in>set pre'. \<forall>e''. cell_error g t c = Fin e'' \<longrightarrow> e' < e'')
             \<and> (\<forall>c\<in>set post'. \<forall>e''. cell_error g t c = Fin e'' \<longrightarrow> e' \<le> e'')"
    using assms by blast
  ultimately show ?thesis
    unfolding scan_inv_def by (simp only: if_False fst_conv snd_conv)
qed

lemma scan_invD:
  assumes "scan_inv g t d cs (m, b)" and "\<not> (\<forall>c\<in>set cs. \<forall>e. cell_error g t c \<noteq> Fin e)"
  obtains pre post e where "cs = pre @ b # post" "cell_error g t b = Fin e" "m = Fin e"
        "\<forall>c\<in>set pre. \<forall>e'. cell_error g t c = Fin e' \<longrightarrow> e < e'"
        "\<forall>c\<in>set post. \<forall>e'. cell_error g t c = Fin e' \<longrightarrow> e \<le> e'"
proof -
  from assms have "\<exists>pre post e. cs = pre @ b # post \<and> cell_error g t b = Fin e \<and> m = Fin e
             \<and> (\<forall>c\<in>set pre. \<forall>e'. cell_error g t c = Fin e' \<longrightarrow> e < e')
             \<and> (\<forall>c\<in>set post. \<forall>e'. cell_error g t c = Fin e' \<longrightarrow> e \<le> e')"
    unfolding scan_inv_def by (simp only: if_False fst_conv snd_conv)
  then show ?thesis using that by blast
qed

lemma scan_inv_none:
  "\<forall>c\<in>set cs. \<forall>e. cell_error g t c \<noteq> Fin e \<Longrightarrow> scan_inv g t d cs st = (st = (PInf, d))"
  unfolding scan_inv_def by (rule if_P)

lemma scan_inv_fold: "scan_inv g t d cs (fold (visit g t) cs (PInf, d))"
proof (induction cs rule: rev_induct)
  case Nil
  show ?case by (simp add: scan_inv_none)
next
  case (snoc x cs)
  obtain m b where st: "fold (visit g t) cs (PInf, d) = (m, b)"
    by (metis surj_pair)
  have IH: "scan_inv g t d cs (m, b)" using snoc st by simp
  have step: "fold (visit g t) (cs @ [x]) (PInf, d) = visit g t x (m, b)"
    by (simp add: st)
  show ?case
  proof (cases "\<forall>e. cell_error g t x \<noteq> Fin e")
    case xNaN: True
    then have res: "visit g t x (m, b) = (m, b)"
      by (rule visit_skip)
    have "scan_inv g t d (cs @ [x]) (m, b)"
    proof (cases "\<forall>c\<in>set cs. \<forall>e. cell_error g t c \<noteq> Fin e")
      case True
      then have "(m, b) = (PInf, d)" using IH by (simp add: scan_inv_none)
      moreover have "\<forall>c\<in>set (cs @ [x]). \<forall>e. cell_error g t c \<noteq> Fin e" using True xNaN by simp
      ultimately show ?thesis by (simp only: scan_inv_none)
    next
      case False
      from scan_invD[OF IH False] obtain pre post e where d: "cs = pre @ b # post"
        "cell_error g t b = Fin e" "m = Fin e"
        "\<forall>c\<in>set pre. \<forall>e'. cell_error g t c = Fin e' \<longrightarrow> e < e'"
        "\<forall>c\<in>set post. \<forall>e'. cell_error g t c = Fin e' \<longrightarrow> e \<le> e'"
        by blast
      have a: "cs @ [x] = pre @ b # (post @ [x])" using d(1) by simp
      have c: "\<forall>c\<in>set (post @ [x]). \<forall>e'. cell_error g t c = Fin e' \<longrightarrow> e \<le> e'"
        using d(5) xNaN by auto
      show ?thesis unfolding d(3) by (rule scan_invI[OF a d(2) d(4) c])
    qed
    with step res show ?thesis by simp
  next
    case False
    then obtain ex where ex: "cell_error g t x = Fin ex"
      by blast
    show ?thesis
    proof (cases "\<forall>c\<in>set cs. \<forall>e. cell_error g t c \<noteq> Fin e")
      case True
      then have "(m, b) = (PInf, d)" using IH by (simp add: scan_inv_none)
      then have res: "visit g t x (m, b) = (Fin ex, x)"
        using ex by (simp add: visit_Fin)
      have a: "cs @ [x] = cs @ x # []" by simp
      have p: "\<forall>c\<in>set cs. \<forall>e'. cell_error g t c = Fin e' \<longrightarrow> ex < e'"
        using True by simp
      have q: "\<forall>c\<in>set ([]::(real \<times> real) list). \<forall>e'. cell_error g t c = Fin e' \<longrightarrow> ex \<le> e'"
        by simp
      have "scan_inv g t d (cs @ [x]) (Fin ex, x)"
        by (rule scan_invI[OF a ex p q])
      with step res show ?thesis by simp
    next
      case False
      from scan_invD[OF IH False] obtain pre post e where d: "cs = pre @ b # post"
        "cell_error g t b = Fin e" "m = Fin e"
        "\<forall>c\<in>set pre. \<forall>e'. cell_error g t c = Fin e' \<longrightarrow> e < e'"
        "\<forall>c\<in>set post. \<forall>e'. cell_error g t c = Fin e' \<longrightarrow> e \<le> e'"
        by blast
      show ?thesis
      proof (cases "ex < e")
        case True
        then have res: "visit g t x (m, b) = (Fin ex, x)"
          using ex d(3) by (simp add: visit_Fin)
        have a: "cs @ [x] = cs @ x # []" by simp
        have p: "\<forall>c\<in>set cs. \<forall>e'. cell_error g t c = Fin e' \<longrightarrow> ex < e'"
        proof (intro ballI allI impI)
          fix c e' assume c: "c \<in> set cs" "cell_error g t c = Fin e'"
          from c(1) d(1) have "c \<in> set pre \<or> c = b \<or> c \<in> set post" by auto
          then have "e \<le> e'" using c(2) d(2,4,5) by fastforce
          with True show "ex < e'" by simp
        qed
        have q: "\<forall>c\<in>set ([]::(real \<times> real) list). \<forall>e'. cell_error g t c = Fin e' \<longrightarrow> ex \<le> e'"
          by simp
        have "scan_inv g t d (cs @ [x]) (Fin ex, x)"
          by (rule scan_invI[OF a ex p q])
        with step res show ?thesis by simp
      next
        case False
        then have res: "visit g t x (m, b) = (m, b)"
          using ex d(3) by (simp add: visit_Fin)
        have a: "cs @ [x] = pre @ b # (post @ [x])" using d(1) by simp
        have c: "\<forall>c\<in>set (post @ [x]). \<forall>e'. cell_error g t c = Fin e' \<longrightarrow> e \<le> e'"
          using d(5) False ex by auto
        have "scan_inv g t d (cs @ [x]) (m, b)"
          unfolding d(3) by (rule scan_invI[OF a d(2) d(4) c])
        with step res show ?thesis by simp
      qed
    qed
  qed
qed

lemma positions_strict: "sorted_wrt (<) (positions g)"
  by (simp add: positions_def strict_sorted_iff)

lemma set_positions: "set (positions g) = PosX ` set g"
  by (simp add: positions_def)

lemma set_scan_cells: "set (scan_cells ps) = set ps \<times> set ps"
  by (auto simp: scan_cells_def)

lemma scan_cells_sorted_aux:
  "sorted_wrt (<) xs \<Longrightarrow> sorted_wrt (<) ys \<Longrightarrow>
   sorted_wrt scan_before (concat (map (\<lambda>py. map (\<lambda>px. (px, py)) xs) ys))"
proof (induction ys)
  case Nil
  show ?case by simp
next
  case (Cons y ys)
  have row: "sorted_wrt scan_before (map (\<lambda>px. (px, y)) xs)"
    using Cons.prems(1) by (simp add: sorted_wrt_map scan_before_def)
  have rest: "sorted_wrt scan_before (concat (map (\<lambda>py. map (\<lambda>px. (px, py)) xs) ys))"
    using Cons by simp
  have cross: "\<forall>a\<in>set (map (\<lambda>px. (px, y)) xs).
      \<forall>b\<in>set (concat (map (\<lambda>py. map (\<lambda>px. (px, py)) xs) ys)). scan_before a b"
    using Cons.prems(2) by (auto simp: scan_before_def)
  show ?case
    using row rest cross by (simp add: sorted_wrt_append)
qed

lemma scan_cells_sorted: "sorted_wrt scan_before (scan_cells (positions g))"
  unfolding scan_cells_def by (rule scan_cells_sorted_aux[OF positions_strict positions_strict])

lemma sorted_wrt_split:
  "sorted_wrt R (pre @ b # post) \<Longrightarrow> c \<in> set post \<Longrightarrow> R b c"
  by (simp add: sorted_wrt_append)

lemma best_position_inv:
  "scan_inv g t (0.5, 0.5) (scan_cells (positions g)) (best_position g t)"
  unfolding best_position_fold search_init_def by (rule scan_inv_fold)

lemma best_position_cases:
  obtains (none) "\<forall>c\<in>set (scan_cells (positions g)). \<forall>e. cell_error g t c \<noteq> Fin e"
      "best_position g t = (PInf, (0.5, 0.5))"
  | (some) pre post e where "scan_cells (positions g) = pre @ snd (best_position g t) # post"
      "cell_error g t (snd (best_position g t)) = Fin e" "fst (best_position g t) = Fin e"
      "\<forall>c\<in>set pre. \<forall>e'. cell_error g t c = Fin e' \<longrightarrow> e < e'"
      "\<forall>c\<in>set post. \<forall>e'. cell_error g t c = Fin e' \<longrightarrow> e \<le> e'"
proof (cases "\<forall>c\<in>set (scan_cells (positions g)). \<forall>e. cell_error g t c \<noteq> Fin e")
  case True
  then have "best_position g t = (PInf, (0.5, 0.5))"
    using best_position_inv[of g t] by (simp only: scan_inv_none)
  with True show ?thesis by (rule none)
next
  case False
  obtain m b where mb: "best_position g t = (m, b)" by (metis surj_pair)
  have "scan_inv g t (0.5, 0.5) (scan_cells (positions g)) (m, b)"
    using best_position_inv[of g t] mb by simp
  from scan_invD[OF this False] obtain pre post e where
    "scan_cells (positions g) = pre @ b # post" "cell_error g t b = Fin e" "m = Fin e"
    "\<forall>c\<in>set pre. \<forall>e'. cell_error g t c = Fin e' \<longrightarrow> e < e'"
    "\<forall>c\<in>set post. \<forall>e'. cell_error g t c = Fin e' \<longrightarrow> e \<le> e'"
    by blast
  then show ?thesis using some[of pre post e] mb by simp
qed




lemma first_of_ties:
  assumes "c \<in> set (scan_cells (positions g))"
    and "cell_error g t c = Fin e" and "fst (best_position g t) = Fin e"
  shows "snd (best_position g t) \<in> set (scan_cells (positions g)) \<and>
         cell_error g t (snd (best_position g t)) = Fin e \<and>
         (snd (best_position g t) = c \<or> scan_before (snd (best_position g t)) c)"
proof (cases rule: best_position_cases[of g t])
  case none
  with assms show ?thesis by simp
next
  case (some pre post e0)
  from some(3) assms(3) have e0: "e0 = e" by simp
  have "c \<notin> set pre" using some(4) assms(2) e0 by fastforce
  with assms(1) some(1) have "c = snd (best_position g t) \<or> c \<in> set post"
    by (metis Un_iff set_ConsD set_append)
  moreover have "scan_before (snd (best_position g t)) c" if "c \<in> set post"
    using scan_cells_sorted[of g] that unfolding some(1) by (rule sorted_wrt_split)
  ultimately have "snd (best_position g t) = c \<or> scan_before (snd (best_position g t)) c"
    by blast
  moreover have "snd (best_position g t) \<in> set (scan_cells (positions g))"
    by (simp add: some(1))
  ultimately show ?thesis using some(2) e0 by simp
qed

lemma fold_visit_skip:
  "cell_error g t c0 = NaN \<Longrightarrow>
   fold (visit g t) cs st = fold (visit g t) (filter (\<lambda>c. c \<noteq> c0) cs) st"
  by (induction cs arbitrary: st) (simp_all add: visit_NaN)

lemma visit_changes:
  "visit g t x s \<noteq> s \<Longrightarrow> snd (visit g t x s) = x \<and> cell_error g t x \<noteq> NaN"
  by (auto simp: visit_def Let_def split: if_splits)

lemma fold_visit_never_selects:
  "cell_error g t c0 = NaN \<Longrightarrow> snd (fold (visit g t) cs st) = c0 \<Longrightarrow>
   fold (visit g t) cs st = st"
proof (induction cs rule: rev_induct)
  case Nil
  show ?case by simp
next
  case (snoc x cs)
  let ?s = "fold (visit g t) cs st"
  have step: "fold (visit g t) (cs @ [x]) st = visit g t x ?s" by simp
  have "visit g t x ?s = ?s"
  proof (rule ccontr)
    assume "visit g t x ?s \<noteq> ?s"
    from visit_changes[OF this] snoc.prems show False by (simp only: step) auto
  qed
  with snoc step show ?case by simp
qed

lemma empty_cell_NaN: "cell_rows g px py = [] \<Longrightarrow> sim_val g px py = NaN"
  by (simp add: sim_val_def dbl_mean_def List.map_filter_simps)




lemmas rnd_eval = rnd_def rnd_at_def rnd_pack_def expo_def pow2_def round_even_def Let_def

lemmas search_eval = best_position_def positions_def scan_cells_def scan_before_def
  search_init_def visit_def cell_error_def sim_val_def cell_rows_def dbl_mean_def
  List.map_filter_simps grade_rows_def df_perf_def patient_avg_abg_def







text \<open>
  Claim C2, as stated, fails when the minimal error is infinite. Two cells whose rows sum
  beyond the range of the doubles both have the error \<open>float('inf')\<close>, the smallest
  error of the grid (the other two cells have no row), and the search returns neither of
  them: the comparison \<open>inf < inf\<close> is false at the first one as well, and the result is
  the initial position \<open>(0.5, 0.5)\<close>.
\<close>

theorem infinite_tie_returns_default:
  "scan_cells (positions
      [\<lparr>Grade = 2, PosX = 0, PosY = 0, AvgTotal = Some (2 ^ 1023)\<rparr>,
       \<lparr>Grade = 2, PosX = 0, PosY = 0, AvgTotal = Some (2 ^ 1023)\<rparr>,
       \<lparr>Grade = 2, PosX = 1, PosY = 0, AvgTotal = Some (2 ^ 1023)\<rparr>,
       \<lparr>Grade = 2, PosX = 1, PosY = 0, AvgTotal = Some (2 ^ 1023)\<rparr>]) = [(0, 0), (1, 0), (0, 1), (1, 1)] \<and>
   cell_error
      [\<lparr>Grade = 2, PosX = 0, PosY = 0, AvgTotal = Some (2 ^ 1023)\<rparr>,
       \<lparr>Grade = 2, PosX = 0, PosY = 0, AvgTotal = Some (2 ^ 1023)\<rparr>,
       \<lparr>Grade = 2, PosX = 1, PosY = 0, AvgTotal = Some (2 ^ 1023)\<rparr>,
       \<lparr>Grade = 2, PosX = 1, PosY = 0, AvgTotal = Some (2 ^ 1023)\<rparr>] 0 (0, 0) = PInf \<and>
   cell_error
      [\<lparr>Grade = 2, PosX = 0, PosY = 0, AvgTotal = Some (2 ^ 1023)\<rparr>,
       \<lparr>Grade = 2, PosX = 0, PosY = 0, AvgTotal = Some (2 ^ 1023)\<rparr>,
       \<lparr>Grade = 2, PosX = 1, PosY = 0, AvgTotal = Some (2 ^ 1023)\<rparr>,
       \<lparr>Grade = 2, PosX = 1, PosY = 0, AvgTotal = Some (2 ^ 1023)\<rparr>] 0 (1, 0) = PInf \<and>
   cell_error
      [\<lparr>Grade = 2, PosX = 0, PosY = 0, AvgTotal = Some (2 ^ 1023)\<rparr>,
       \<lparr>Grade = 2, PosX = 0, PosY = 0, AvgTotal = Some (2 ^ 1023)\<rparr>,
       \<lparr>Grade = 2, PosX = 1, PosY = 0, AvgTotal = Some (2 ^ 1023)\<rparr>,
       \<lparr>Grade = 2, PosX = 1, PosY = 0, AvgTotal = Some (2 ^ 1023)\<rparr>] 0 (0, 1) = NaN \<and>
   cell_error
      [\<lparr>Grade = 2, PosX = 0, PosY = 0, AvgTotal = Some (2 ^ 1023)\<rparr>,
       \<lparr>Grade = 2, PosX = 0, PosY = 0, AvgTotal = Some (2 ^ 1023)\<rparr>,
       \<lparr>Grade = 2, PosX = 1, PosY = 0, AvgTotal = Some (2 ^ 1023)\<rparr>,
       \<lparr>Grade = 2, PosX = 1, PosY = 0, AvgTotal = Some (2 ^ 1023)\<rparr>] 0 (1, 1) = NaN \<and>
   best_position
      [\<lparr>Grade = 2, PosX = 0, PosY = 0, AvgTotal = Some (2 ^ 1023)\<rparr>,
       \<lparr>Grade = 2, PosX = 0, PosY = 0, AvgTotal = Some (2 ^ 1023)\<rparr>,
       \<lparr>Grade = 2, PosX = 1, PosY = 0, AvgTotal = Some (2 ^ 1023)\<rparr>,
       \<lparr>Grade = 2, PosX = 1, PosY = 0, AvgTotal = Some (2 ^ 1023)\<rparr>] 0 = (PInf, (0.5, 0.5))"
  by (simp add: search_eval rnd_eval)

text \<open>
  Claim C2, amended. When a scanned cell \<open>c\<close> has a finite computed error equal to the
  one returned, the returned position is \<open>c\<close> itself or a cell that the scan visits
  before \<open>c\<close> (smaller Y, or equal Y and smaller X): of the cells that reach the minimal
  finite error the first one in scan order is returned, a later tied cell never replaces
  it. The list of scanned cells is in that order. The errors compared are the computed
  doubles, so that two cells tie when their errors round to the same double.
\<close>

theorem best_position_first_of_ties:
  assumes "c \<in> set (scan_cells (positions g))"
    and "cell_error g t c = Fin e"
    and "fst (best_position g t) = Fin e"
  shows "snd (best_position g t) \<in> set (scan_cells (positions g)) \<and>
         cell_error g t (snd (best_position g t)) = Fin e \<and>
         (snd (best_position g t) = c \<or> scan_before (snd (best_position g t)) c) \<and>
         sorted_wrt scan_before (scan_cells (positions g))"
  using first_of_ties[OF assms] scan_cells_sorted[of g] by simp

theorem best_position_first_of_ties_witness:
  "(1, 0) \<in> set (scan_cells (positions
      [\<lparr>Grade = 2, PosX = 0, PosY = 0, AvgTotal = Some (- 1)\<rparr>,
       \<lparr>Grade = 2, PosX = 1, PosY = 0, AvgTotal = Some 1\<rparr>])) \<and>
   cell_error
      [\<lparr>Grade = 2, PosX = 0, PosY = 0, AvgTotal = Some (- 1)\<rparr>,
       \<lparr>Grade = 2, PosX = 1, PosY = 0, AvgTotal = Some 1\<rparr>] (1 / 2 ^ 60) (1, 0) = Fin 1 \<and>
   cell_error
      [\<lparr>Grade = 2, PosX = 0, PosY = 0, AvgTotal = Some (- 1)\<rparr>,
       \<lparr>Grade = 2, PosX = 1, PosY = 0, AvgTotal = Some 1\<rparr>] (1 / 2 ^ 60) (0, 0) = Fin 1 \<and>
   best_position
      [\<lparr>Grade = 2, PosX = 0, PosY = 0, AvgTotal = Some (- 1)\<rparr>,
       \<lparr>Grade = 2, PosX = 1, PosY = 0, AvgTotal = Some 1\<rparr>] (1 / 2 ^ 60) = (Fin 1, (0, 0)) \<and>
   scan_before (0, 0) (1, 0) \<and>
   best_position
      [\<lparr>Grade = 2, PosX = 0, PosY = 0, AvgTotal = Some 20.7\<rparr>,
       \<lparr>Grade = 2, PosX = 1, PosY = 0, AvgTotal = Some 20.9\<rparr>] (patient_avg_abg 2) = (Fin (28147497671065 / 2 ^ 48), (1, 0))"
  using best_position_first_of_ties[of "(1, 0)"
      "[\<lparr>Grade = 2, PosX = 0, PosY = 0, AvgTotal = Some (- 1)\<rparr>,
       \<lparr>Grade = 2, PosX = 1, PosY = 0, AvgTotal = Some 1\<rparr>]" "1 / 2 ^ 60" 1]
  by (simp add: search_eval rnd_eval)

text \<open>
  Claim C3. A cell with no contributing row has the mean NaN and the error NaN, which is
  not the error zero. Visiting it leaves every search state as it is, so it neither lowers
  the running minimum nor becomes the best position, and the scan of any list of cells
  gives the same result as the scan of that list without the cell. The position returned
  for the grade can be this cell only when the search selected nothing at all and returns
  its initial state.
\<close>

theorem empty_cell_never_selected:
  assumes "cell_rows g px py = []"
  shows "sim_val g px py = NaN \<and>
         cell_error g t (px, py) = NaN \<and>
         cell_error g t (px, py) \<noteq> Fin 0 \<and>
         visit g t (px, py) st = st \<and>
         fold (visit g t) cs st = fold (visit g t) (filter (\<lambda>c. c \<noteq> (px, py)) cs) st \<and>
         (snd (best_position g t) = (px, py) \<longrightarrow> best_position g t = search_init)"
proof -
  have n: "sim_val g px py = NaN" using assms by (rule empty_cell_NaN)
  then have e: "cell_error g t (px, py) = NaN" by (simp add: cell_error_def)
  have "best_position g t = search_init" if "snd (best_position g t) = (px, py)"
    using fold_visit_never_selects[OF e, of "scan_cells (positions g)" search_init] that
    by (simp add: best_position_fold)
  then show ?thesis
    using n e visit_NaN[OF e, of st] fold_visit_skip[OF e, of cs st] by simp
qed

theorem empty_cell_never_selected_witness:
  "cell_rows
      [\<lparr>Grade = 1, PosX = 0, PosY = 1, AvgTotal = Some 20\<rparr>,
       \<lparr>Grade = 1, PosX = 1, PosY = 0, AvgTotal = Some 10\<rparr>] 0 0 = [] \<and>
   (0, 0) \<in> set (scan_cells (positions
      [\<lparr>Grade = 1, PosX = 0, PosY = 1, AvgTotal = Some 20\<rparr>,
       \<lparr>Grade = 1, PosX = 1, PosY = 0, AvgTotal = Some 10\<rparr>])) \<and>
   visit
      [\<lparr>Grade = 1, PosX = 0, PosY = 1, AvgTotal = Some 20\<rparr>,
       \<lparr>Grade = 1, PosX = 1, PosY = 0, AvgTotal = Some 10\<rparr>] 12 (0, 0) (Fin 5, (1, 1))
     = (Fin 5, (1, 1)) \<and>
   best_position
      [\<lparr>Grade = 1, PosX = 0, PosY = 1, AvgTotal = Some 20\<rparr>,
       \<lparr>Grade = 1, PosX = 1, PosY = 0, AvgTotal = Some 10\<rparr>] 12 = (Fin 2, (1, 0))"
  using empty_cell_never_selected[of
      "[\<lparr>Grade = 1, PosX = 0, PosY = 1, AvgTotal = Some 20\<rparr>,
       \<lparr>Grade = 1, PosX = 1, PosY = 0, AvgTotal = Some 10\<rparr>]" 0 0 12 "(Fin 5, (1, 1))" "[]"]
  by (simp add: search_eval rnd_eval)

text \<open>
  Claim C10. When every scanned cell has an undefined mean, the search returns the initial
  position \<open>(0.5, 0.5)\<close> with the error \<open>float('inf')\<close>, whatever the scanned
  positions are.
\<close>

theorem all_cells_undefined_default:
  assumes "\<forall>c\<in>set (scan_cells (positions g)). sim_val g (fst c) (snd c) = NaN"
  shows "best_position g t = (PInf, (0.5, 0.5))"
proof -
  from assms have "\<forall>c\<in>set (scan_cells (positions g)). \<forall>e. cell_error g t c \<noteq> Fin e"
    by (simp add: cell_error_NaN)
  then show ?thesis
    using best_position_inv[of g t] by (simp only: scan_inv_none)
qed

theorem all_cells_undefined_default_witness:
  "scan_cells (positions [\<lparr>Grade = 1, PosX = 0, PosY = 1, AvgTotal = Some 10\<rparr>]) = [(0, 0)] \<and>
   sim_val [\<lparr>Grade = 1, PosX = 0, PosY = 1, AvgTotal = Some 10\<rparr>] 0 0 = NaN \<and>
   best_position [\<lparr>Grade = 1, PosX = 0, PosY = 1, AvgTotal = Some 10\<rparr>] 10 = (PInf, (0.5, 0.5)) \<and>
   (0.5, 0.5) \<notin> set (scan_cells (positions [\<lparr>Grade = 1, PosX = 0, PosY = 1, AvgTotal = Some 10\<rparr>]))"
  using all_cells_undefined_default[of "[\<lparr>Grade = 1, PosX = 0, PosY = 1, AvgTotal = Some 10\<rparr>]" 10]
  by (simp add: scan_cells_def positions_def sim_val_def cell_rows_def dbl_mean_def
      List.map_filter_simps)

text \<open>
  Claim C7, as stated, fails: the axis is built from the \<open>PosX\<close> column alone. A grade
  whose only row lies at \<open>PosX = 0\<close>, \<open>PosY = 1\<close> has the single scanned cell
  \<open>(0, 0)\<close>, and the position of its row is not scanned.
\<close>

theorem record_position_not_scanned:
  "\<not> (\<forall>r\<in>set (grade_rows [\<lparr>Grade = 1, PosX = 0, PosY = 1, AvgTotal = Some 10\<rparr>] 1).
        (PosX r, PosY r) \<in> set (scan_cells (positions (grade_rows [\<lparr>Grade = 1, PosX = 0, PosY = 1, AvgTotal = Some 10\<rparr>] 1))))"
  by (simp add: grade_rows_def df_perf_def scan_cells_def positions_def)

text \<open>
  Claim C7, amended. The axis of the grid is the ascending list of the distinct
  \<open>PosX\<close> values of the grade's rows, used for both coordinates; the search visits
  exactly the pairs of that list; the position of a row is among them whenever its
  \<open>PosY\<close> value also occurs as a \<open>PosX\<close> value of the grade.
\<close>

theorem scan_covers_posx_grid:
  "positions g = sort (remdups (map PosX g)) \<and>
   best_position g t = fold (visit g t) (scan_cells (positions g)) search_init \<and>
   set (scan_cells (positions g)) = PosX ` set g \<times> PosX ` set g \<and>
   (\<forall>r\<in>set g. PosY r \<in> PosX ` set g \<longrightarrow> (PosX r, PosY r) \<in> set (scan_cells (positions g)))"
  by (simp add: positions_def best_position_fold[unfolded positions_def] set_scan_cells)

theorem scan_covers_posx_grid_witness:
  "PosY \<lparr>Grade = 1, PosX = 1, PosY = 0, AvgTotal = Some 10\<rparr>
     \<in> PosX ` set [\<lparr>Grade = 1, PosX = 0, PosY = 1, AvgTotal = Some 20\<rparr>,
                   \<lparr>Grade = 1, PosX = 1, PosY = 0, AvgTotal = Some 10\<rparr>] \<and>
   (1, 0) \<in> set (scan_cells (positions
      [\<lparr>Grade = 1, PosX = 0, PosY = 1, AvgTotal = Some 20\<rparr>,
       \<lparr>Grade = 1, PosX = 1, PosY = 0, AvgTotal = Some 10\<rparr>])) \<and>
   scan_cells (positions
      [\<lparr>Grade = 1, PosX = 0, PosY = 1, AvgTotal = Some 20\<rparr>,
       \<lparr>Grade = 1, PosX = 1, PosY = 0, AvgTotal = Some 10\<rparr>]) = [(0, 0), (1, 0), (0, 1), (1, 1)]"
  using scan_covers_posx_grid[of
      "[\<lparr>Grade = 1, PosX = 0, PosY = 1, AvgTotal = Some 20\<rparr>,
       \<lparr>Grade = 1, PosX = 1, PosY = 0, AvgTotal = Some 10\<rparr>]" 12]
  by (simp add: positions_def scan_cells_def)

section \<open>Properties of the grade statistics\<close>

lemma grade_rows_pos: "0 < g \<Longrightarrow> grade_rows df g = filter (\<lambda>r. Grade r = g) df"
  by (auto simp: grade_rows_def df_perf_def intro: filter_cong)




text \<open>
  Claim C8. For a grade with exactly one row, the standard deviation is NaN, which is a
  value different from the number zero.
\<close>

theorem single_record_std_undefined:
  assumes "g \<in> {1, 2, 3, 4}" and "length (filter (\<lambda>r. Grade r = g) df) = 1"
  shows "sim_stds df ! nat (g - 1) = NaN \<and> sim_stds df ! nat (g - 1) \<noteq> Fin 0"
proof -
  have pos: "0 < g" using assms(1) by auto
  have nth: "map f grades ! nat (g - 1) = f g" for f :: "int \<Rightarrow> pyfloat"
    using assms(1) by (auto simp: grades_def)
  have "length (List.map_filter id (map AvgTotal (grade_rows df g))) \<le> 1"
    using assms(2) length_filter_le[of "\<lambda>x. x \<noteq> None" "map AvgTotal (filter (\<lambda>r. Grade r = g) df)"]
    by (simp add: grade_rows_pos[OF pos] List.map_filter_def)
  then show ?thesis
    by (simp add: sim_stds_def nth series_std_def Let_def)
qed

theorem single_record_std_undefined_witness:
  "(3::int) \<in> {1, 2, 3, 4} \<and>
   length (filter (\<lambda>r. Grade r = 3)
      [\<lparr>Grade = 1, PosX = 0, PosY = 0, AvgTotal = Some 10\<rparr>,
       \<lparr>Grade = 3, PosX = 0, PosY = 0, AvgTotal = Some 20\<rparr>,
       \<lparr>Grade = 1, PosX = 0, PosY = 0, AvgTotal = Some 30\<rparr>]) = 1 \<and>
   sim_stds
      [\<lparr>Grade = 1, PosX = 0, PosY = 0, AvgTotal = Some 10\<rparr>,
       \<lparr>Grade = 3, PosX = 0, PosY = 0, AvgTotal = Some 20\<rparr>,
       \<lparr>Grade = 1, PosX = 0, PosY = 0, AvgTotal = Some 30\<rparr>] ! nat (3 - 1) = NaN"
  using single_record_std_undefined[of 3
      "[\<lparr>Grade = 1, PosX = 0, PosY = 0, AvgTotal = Some 10\<rparr>,
       \<lparr>Grade = 3, PosX = 0, PosY = 0, AvgTotal = Some 20\<rparr>,
       \<lparr>Grade = 1, PosX = 0, PosY = 0, AvgTotal = Some 30\<rparr>]"]
  by simp


section \<open>Properties of the patient-record parser\<close>

lemma ascii_Nil: "ascii [] = []" and ascii_Cons: "ascii (c # cs) = of_char c # ascii cs"
  by (simp_all add: ascii_def)

lemma split_acc_nonempty: "split_acc sep acc s \<noteq> []"
  by (induction sep acc s rule: split_acc.induct) auto

lemma split_acc_contains:
  "sep \<noteq> [] \<Longrightarrow> contains sep s \<Longrightarrow> 2 \<le> length (split_acc sep acc s)"
proof (induction sep acc s rule: split_acc.induct)
  case (1 sep acc)
  then show ?case by simp
next
  case (2 sep acc c cs)
  show ?case
  proof (cases "starts_with (c # cs) sep")
    case True
    have "1 \<le> length (split_acc sep [] (drop (length sep) (c # cs)))"
      using split_acc_nonempty[of sep "[]" "drop (length sep) (c # cs)"]
      by (simp add: Suc_le_eq)
    with True 2(3) show ?thesis by simp
  next
    case False
    with 2 show ?thesis by simp
  qed
qed

lemma py_item_split_0: "py_item (py_split s sep) 0 = Inr (hd (py_split s sep))"
  using split_acc_nonempty[of sep "[]" s]
  by (simp add: py_item_def py_split_def hd_conv_nth)

lemma py_item_split_1:
  "sep \<noteq> [] \<Longrightarrow> contains sep s \<Longrightarrow> py_item (py_split s sep) 1 = Inr (py_split s sep ! 1)"
  using split_acc_contains[of sep s "[]"]
  by (simp add: py_item_def py_split_def)

lemma pre_op_marker_nonempty: "pre_op_marker \<noteq> []"
  by (simp add: pre_op_marker_def)

lemma fold_sides:
  "fold (\<lambda>(side, prefix_b, prefix_a) ps.
            case side_dicts pf pre_op prefix_b prefix_a of
              (bone, air) \<Rightarrow>
                (case side_record pid side bone air of
                   None \<Rightarrow> ps
                 | Some p \<Rightarrow> ps @ [p])) ss ps
   = ps @ concat (map (side_records pf pid pre_op) ss)"
proof (induction ss arbitrary: ps)
  case Nil
  then show ?case by simp
next
  case (Cons s ss)
  obtain side pb pa where s: "s = (side, pb, pa)" by (metis prod_cases3)
  obtain bone air where d: "side_dicts pf pre_op pb pa = (bone, air)" by (metis surj_pair)
  show ?case
    by (cases "side_record pid side bone air") (simp_all add: Cons s d side_records_def)
qed

lemma block_body_eq:
  "block_body pf block ps =
     Inr (ps @ (if contains pre_op_marker block
                then concat (map (side_records pf (hd (py_split block right_bracket))
                       (hd (py_split (py_split block pre_op_marker ! 1) box_corner))) sides)
                else []))"
proof (cases "contains pre_op_marker block")
  case True
  from py_item_split_1[OF pre_op_marker_nonempty True] show ?thesis
    by (simp add: block_body_def then_do_def py_item_split_0 True fold_sides)
next
  case False
  then show ?thesis
    by (simp add: block_body_def then_do_def py_item_split_0)
qed

lemma block_records_eq:
  "block_records pf block =
     (if contains pre_op_marker block
      then concat (map (side_records pf (hd (py_split block right_bracket))
             (hd (py_split (py_split block pre_op_marker ! 1) box_corner))) sides)
      else [])"
  by (simp add: block_records_def block_body_eq[of pf block "[]"])

lemma try_block_eq: "try_block pf block ps = Inr (ps @ block_records pf block)"
  by (simp add: try_block_def try_except_def block_body_eq block_records_eq)

lemma for_each_try_block:
  "for_each (try_block pf) bs ps = Inr (ps @ concat (map (block_records pf) bs))"
  by (induction bs arbitrary: ps) (simp_all add: try_block_eq then_do_def)

lemma load_all_eq:
  "load_all_patient_abg pf content
   = Inr (concat (map (block_records pf) (drop 1 (re_split content))))"
  by (simp add: load_all_patient_abg_def for_each_try_block)

lemma side_records_length: "length (side_records pf pid pre_op s) \<le> 1"
  by (auto simp: side_records_def split: prod.splits option.splits)

lemma block_records_length: "length (block_records pf block) \<le> 2"
  using side_records_length[of pf "hd (py_split block right_bracket)"
          "hd (py_split (py_split block pre_op_marker ! 1) box_corner)" "(ascii ''R'', ascii ''R_B'', ascii ''R_A'')"]
        side_records_length[of pf "hd (py_split block right_bracket)"
          "hd (py_split (py_split block pre_op_marker ! 1) box_corner)" "(ascii ''L'', ascii ''L_B'', ascii ''L_A'')"]
  by (simp add: block_records_eq sides_def)

lemma store_part_skip:
  "(\<exists>e. token_entry pf part = Inl e) \<or> token_entry pf part = Inr None \<Longrightarrow>
   store_part pf part vs = vs"
  by (auto simp: store_part_def store_token_def)

lemma fold_store_part_skip:
  assumes "(\<exists>e. token_entry pf part = Inl e) \<or> token_entry pf part = Inr None"
  shows "fold (store_part pf) (ps1 @ part # ps2) vs = fold (store_part pf) (ps1 @ ps2) vs"
  using store_part_skip[OF assms] by simp

lemma token_entry_nan:
  "py_item (py_split part (ascii ''kHz='')) 1 = Inr rest \<Longrightarrow>
   py_item (py_split rest (ascii ''dB'')) 0 = Inr (ascii ''nan'') \<Longrightarrow>
   (\<exists>e. token_entry pf part = Inl e) \<or> token_entry pf part = Inr None"
  by (auto simp add: token_entry_def then_do_def py_item_split_0
      split: sum.splits option.splits)

lemma token_entry_float_fails:
  "py_item (py_split part (ascii ''kHz='')) 1 = Inr rest \<Longrightarrow>
   py_item (py_split rest (ascii ''dB'')) 0 = Inr val \<Longrightarrow> pf val = None \<Longrightarrow>
   (\<exists>e. token_entry pf part = Inl e) \<or> token_entry pf part = Inr None"
  by (auto simp add: token_entry_def then_do_def py_item_split_0 py_float_def
      split: sum.splits option.splits)

lemmas eval_simps = icw_marker_def cwd_marker_def group_token_entry_def group_store_token_def
  group_store_parts_def group_side_dicts_def group_side_record_def group_block_body_def
  group_try_block_def group_parse_def icw_section_def cwd_section_def load_patient_by_group_def
  ascii_Nil ascii_Cons heavy_bar_def block_head_def right_bracket_def
  pre_op_marker_def box_corner_def bar_run_def re_split_def py_split_def py_item_def
  py_last_item_def py_words_def py_strip_def is_space_def then_do_def py_float_def
  token_entry_def store_token_def store_parts_def parse_line_def side_dicts_def
  store_part_def sides_def block_body_def try_block_def try_except_def
  load_all_patient_abg_def side_record_def block_records_def side_records_def
  common_abg_def canonical_freqs_def np_mean_def List.map_filter_simps










lemma scenario_document:
  assumes "pf (ascii ''1'') = Some (Fin 1)" "pf (ascii ''3'') = Some (Fin 3)"
    "pf (ascii ''10'') = Some (Fin 10)" "pf (ascii ''30'') = Some (Fin 30)"
    "pf (ascii ''40'') = Some (Fin 40)" "pf (ascii ''x'') = None"
  shows "load_all_patient_abg pf
     (ascii ''title'' @ [10]
       @ heavy_bar # block_head @ ascii ''B'' @ right_bracket @ [10]
       @ ascii ''R_B 1kHz=10dB'' @ [10] @ ascii ''R_A 1kHz=30dB'' @ [10]
       @ heavy_bar # heavy_bar # block_head @ ascii ''A'' @ right_bracket @ [10]
       @ pre_op_marker @ [10]
       @ ascii ''R_B 1kHz=10dB | kHz=5dB | 2kHz=nandB | 3kHz=10dB'' @ [10]
       @ ascii ''R_A 1kHz=30dB | 2kHz=xdB | 3kHz=40dB'' @ [10] @ box_corner @ [10])
     = Inr [\<lparr>avg_abg = Fin 25, abg_values = [Fin 20, Fin 30],
             patient_id = ascii ''A_R'', freqs = [1000, 3000]\<rparr>]"
  using assms by (simp add: eval_simps)

text \<open>
  Claim C5, as stated, fails in its last part: a well-formed patient block gives one
  record for each ear side measured, so a document with one well-formed block, both ears
  measured, and one block without the pre-operative marker yields two records, not one.
\<close>

theorem two_ears_two_records:
  "load_all_patient_abg
     (\<lambda>s. if s = ascii ''1'' then Some (Fin 1) else if s = ascii ''3'' then Some (Fin 3)
        else if s = ascii ''10'' then Some (Fin 10) else if s = ascii ''30'' then Some (Fin 30)
        else if s = ascii ''40'' then Some (Fin 40) else None)
     (ascii ''title'' @ [10]
       @ heavy_bar # block_head @ ascii ''A'' @ right_bracket @ [10]
       @ pre_op_marker @ [10]
       @ ascii ''R_B 1kHz=10dB'' @ [10] @ ascii ''R_A 1kHz=30dB'' @ [10]
       @ ascii ''L_B 1kHz=10dB'' @ [10] @ ascii ''L_A 1kHz=40dB'' @ [10] @ box_corner @ [10]
       @ heavy_bar # block_head @ ascii ''B'' @ right_bracket @ [10]
       @ ascii ''R_B 1kHz=10dB'' @ [10] @ ascii ''R_A 1kHz=30dB'' @ [10])
   = Inr [\<lparr>avg_abg = Fin 20, abg_values = [Fin 20],
            patient_id = ascii ''A_R'', freqs = [1000]\<rparr>,
          \<lparr>avg_abg = Fin 30, abg_values = [Fin 30],
            patient_id = ascii ''A_L'', freqs = [1000]\<rparr>]"
  by (simp add: eval_simps)

text \<open>
  Claim C5, amended. On every text and for every reading of numerals the parser returns a
  list of records, it never raises: the list is made of the records of each block in turn,
  a block contributes at most two records, one for each ear side, and a block without the
  pre-operative marker contributes none. A token whose processing raises, or whose value
  text is \<open>nan\<close> or is rejected by \<open>float\<close>, stores nothing, and the tokens before and
  after it on the line are stored as if it were not there. On a document with a block
  without the marker followed by a well-formed block with one ear side measured (whose
  lines have, between good tokens, a token without frequency, a \<open>nan\<close> token and a
  token with an unreadable value), the result is exactly the one record of the second
  block, built from the good tokens.
\<close>

theorem parser_never_raises:
  "(\<exists>rs. load_all_patient_abg pf content = Inr rs) \<and>
   load_all_patient_abg pf content
     = Inr (concat (map (block_records pf) (drop 1 (re_split content)))) \<and>
   try_block pf block ps = Inr (ps @ block_records pf block) \<and>
   length (block_records pf block) \<le> 2 \<and>
   (\<not> contains pre_op_marker block \<longrightarrow> block_records pf block = []) \<and>
   ((\<exists>e. token_entry pf part = Inl e) \<or> token_entry pf part = Inr None \<longrightarrow>
       store_token pf part vs = vs \<and>
       fold (store_part pf) (xs @ part # ys) vs = fold (store_part pf) (xs @ ys) vs) \<and>
   (\<forall>rest val. py_item (py_split part (ascii ''kHz='')) 1 = Inr rest \<longrightarrow>
       py_item (py_split rest (ascii ''dB'')) 0 = Inr val \<longrightarrow>
       val = ascii ''nan'' \<or> pf val = None \<longrightarrow>
       (\<exists>e. token_entry pf part = Inl e) \<or> token_entry pf part = Inr None) \<and>
   (pf (ascii ''1'') = Some (Fin 1) \<and> pf (ascii ''3'') = Some (Fin 3) \<and>
    pf (ascii ''10'') = Some (Fin 10) \<and> pf (ascii ''30'') = Some (Fin 30) \<and>
    pf (ascii ''40'') = Some (Fin 40) \<and> pf (ascii ''x'') = None \<longrightarrow>
    load_all_patient_abg pf
     (ascii ''title'' @ [10]
       @ heavy_bar # block_head @ ascii ''B'' @ right_bracket @ [10]
       @ ascii ''R_B 1kHz=10dB'' @ [10] @ ascii ''R_A 1kHz=30dB'' @ [10]
       @ heavy_bar # heavy_bar # block_head @ ascii ''A'' @ right_bracket @ [10]
       @ pre_op_marker @ [10]
       @ ascii ''R_B 1kHz=10dB | kHz=5dB | 2kHz=nandB | 3kHz=10dB'' @ [10]
       @ ascii ''R_A 1kHz=30dB | 2kHz=xdB | 3kHz=40dB'' @ [10] @ box_corner @ [10])
     = Inr [\<lparr>avg_abg = Fin 25, abg_values = [Fin 20, Fin 30],
             patient_id = ascii ''A_R'', freqs = [1000, 3000]\<rparr>])"
proof (intro conjI allI impI)
  show "\<exists>rs. load_all_patient_abg pf content = Inr rs"
    by (simp add: load_all_eq)
  show "load_all_patient_abg pf content
     = Inr (concat (map (block_records pf) (drop 1 (re_split content))))"
    by (rule load_all_eq)
  show "try_block pf block ps = Inr (ps @ block_records pf block)" by (rule try_block_eq)
  show "length (block_records pf block) \<le> 2" by (rule block_records_length)
  show "block_records pf block = []" if "\<not> contains pre_op_marker block"
    using that by (simp add: block_records_eq)
  show "store_token pf part vs = vs"
    if "(\<exists>e. token_entry pf part = Inl e) \<or> token_entry pf part = Inr None"
    using that by (auto simp: store_token_def)
  show "fold (store_part pf) (xs @ part # ys) vs = fold (store_part pf) (xs @ ys) vs"
    if "(\<exists>e. token_entry pf part = Inl e) \<or> token_entry pf part = Inr None"
    using that by (rule fold_store_part_skip)
  show "(\<exists>e. token_entry pf part = Inl e) \<or> token_entry pf part = Inr None"
    if "py_item (py_split part (ascii ''kHz='')) 1 = Inr rest"
      and "py_item (py_split rest (ascii ''dB'')) 0 = Inr val"
      and "val = ascii ''nan'' \<or> pf val = None" for rest val
    using that token_entry_nan[of part rest pf] token_entry_float_fails[of part rest val pf]
    by blast
next
  assume "pf (ascii ''1'') = Some (Fin 1) \<and> pf (ascii ''3'') = Some (Fin 3) \<and>
    pf (ascii ''10'') = Some (Fin 10) \<and> pf (ascii ''30'') = Some (Fin 30) \<and>
    pf (ascii ''40'') = Some (Fin 40) \<and> pf (ascii ''x'') = None"
  then show "load_all_patient_abg pf
     (ascii ''title'' @ [10]
       @ heavy_bar # block_head @ ascii ''B'' @ right_bracket @ [10]
       @ ascii ''R_B 1kHz=10dB'' @ [10] @ ascii ''R_A 1kHz=30dB'' @ [10]
       @ heavy_bar # heavy_bar # block_head @ ascii ''A'' @ right_bracket @ [10]
       @ pre_op_marker @ [10]
       @ ascii ''R_B 1kHz=10dB | kHz=5dB | 2kHz=nandB | 3kHz=10dB'' @ [10]
       @ ascii ''R_A 1kHz=30dB | 2kHz=xdB | 3kHz=40dB'' @ [10] @ box_corner @ [10])
     = Inr [\<lparr>avg_abg = Fin 25, abg_values = [Fin 20, Fin 30],
             patient_id = ascii ''A_R'', freqs = [1000, 3000]\<rparr>]"
    using scenario_document[of pf] by blast
qed

theorem parser_never_raises_witness:
  "\<not> contains pre_op_marker (ascii ''B'' @ right_bracket @ [10] @ ascii ''R_B 1kHz=10dB'') \<and>
   block_records
     (\<lambda>s. if s = ascii ''1'' then Some (Fin 1) else if s = ascii ''3'' then Some (Fin 3)
        else if s = ascii ''10'' then Some (Fin 10) else if s = ascii ''30'' then Some (Fin 30)
        else if s = ascii ''40'' then Some (Fin 40) else None)
     (ascii ''B'' @ right_bracket @ [10] @ ascii ''R_B 1kHz=10dB'') = [] \<and>
   token_entry
     (\<lambda>s. if s = ascii ''1'' then Some (Fin 1) else if s = ascii ''3'' then Some (Fin 3)
        else if s = ascii ''10'' then Some (Fin 10) else if s = ascii ''30'' then Some (Fin 30)
        else if s = ascii ''40'' then Some (Fin 40) else None) (ascii '' kHz=5dB '') = Inl IndexError \<and>
   token_entry
     (\<lambda>s. if s = ascii ''1'' then Some (Fin 1) else if s = ascii ''3'' then Some (Fin 3)
        else if s = ascii ''10'' then Some (Fin 10) else if s = ascii ''30'' then Some (Fin 30)
        else if s = ascii ''40'' then Some (Fin 40) else None) (ascii '' 2kHz=xdB '') = Inl ValueError \<and>
   token_entry
     (\<lambda>s. if s = ascii ''1'' then Some (Fin 1) else if s = ascii ''3'' then Some (Fin 3)
        else if s = ascii ''10'' then Some (Fin 10) else if s = ascii ''30'' then Some (Fin 30)
        else if s = ascii ''40'' then Some (Fin 40) else None) (ascii '' 2kHz=nandB '') = Inr None \<and>
   fold (store_part
     (\<lambda>s. if s = ascii ''1'' then Some (Fin 1) else if s = ascii ''3'' then Some (Fin 3)
        else if s = ascii ''10'' then Some (Fin 10) else if s = ascii ''30'' then Some (Fin 30)
        else if s = ascii ''40'' then Some (Fin 40) else None))
     ([ascii ''R_B 1kHz=10dB ''] @ ascii '' kHz=5dB '' # [ascii '' 3kHz=10dB'']) []
     = [(Fin 1, Fin 10), (Fin 3, Fin 10)] \<and>
   load_all_patient_abg
     (\<lambda>s. if s = ascii ''1'' then Some (Fin 1) else if s = ascii ''3'' then Some (Fin 3)
        else if s = ascii ''10'' then Some (Fin 10) else if s = ascii ''30'' then Some (Fin 30)
        else if s = ascii ''40'' then Some (Fin 40) else None)
     (ascii ''title'' @ [10]
       @ heavy_bar # block_head @ ascii ''B'' @ right_bracket @ [10]
       @ ascii ''R_B 1kHz=10dB'' @ [10] @ ascii ''R_A 1kHz=30dB'' @ [10]
       @ heavy_bar # heavy_bar # block_head @ ascii ''A'' @ right_bracket @ [10]
       @ pre_op_marker @ [10]
       @ ascii ''R_B 1kHz=10dB | kHz=5dB | 2kHz=nandB | 3kHz=10dB'' @ [10]
       @ ascii ''R_A 1kHz=30dB | 2kHz=xdB | 3kHz=40dB'' @ [10] @ box_corner @ [10])
     = Inr [\<lparr>avg_abg = Fin 25, abg_values = [Fin 20, Fin 30],
             patient_id = ascii ''A_R'', freqs = [1000, 3000]\<rparr>]"
  using parser_never_raises[where pf = "\<lambda>s. if s = ascii ''1'' then Some (Fin 1) else if s = ascii ''3'' then Some (Fin 3)
        else if s = ascii ''10'' then Some (Fin 10) else if s = ascii ''30'' then Some (Fin 30)
        else if s = ascii ''40'' then Some (Fin 40) else None"
        and content = "[]" and block = "ascii ''B'' @ right_bracket @ [10] @ ascii ''R_B 1kHz=10dB''" and ps = "[]"
        and part = "ascii '' kHz=5dB ''" and vs = "[]"
        and xs = "[ascii ''R_B 1kHz=10dB '']" and ys = "[ascii '' 3kHz=10dB'']"]
  by (simp add: eval_simps)

section \<open>The group-restricted parser against the full parser\<close>

text \<open>
  Claim C9 does not hold of the code, and the two differences are defects of the group
  parser. With the CWD marker before the ICW marker, the CWD sub-section is not cut at the
  ICW marker as the ICW sub-section is cut at the CWD marker, so it runs over the ICW
  blocks: a document with one patient block, measured on one side, gives that side's
  record in both lists. And the extraction is not the full parser's: where two lines
  carry the same label, the group parser merges their tokens and the full parser keeps the
  last line only, so the means of the same block differ (25 against 30).
\<close>

theorem group_parser_overlap:
  "load_patient_by_group
     (\<lambda>s. if s = ascii ''1'' then Some (Fin 1) else if s = ascii ''2'' then Some (Fin 2)
        else if s = ascii ''10'' then Some (Fin 10) else if s = ascii ''30'' then Some (Fin 30)
        else if s = ascii ''40'' then Some (Fin 40) else None)
     (cwd_marker @ [10] @ icw_marker @ [10]
       @ heavy_bar # block_head @ ascii ''A'' @ right_bracket @ pre_op_marker @ [10]
       @ ascii ''R_B 1kHz=10dB'' @ [10] @ ascii ''R_A 1kHz=30dB'' @ [10] @ box_corner)
   = Inr ([\<lparr>avg_abg = Fin 20, abg_values = [Fin 20]\<rparr>],
          [\<lparr>avg_abg = Fin 20, abg_values = [Fin 20]\<rparr>]) \<and>
   load_all_patient_abg
     (\<lambda>s. if s = ascii ''1'' then Some (Fin 1) else if s = ascii ''2'' then Some (Fin 2)
        else if s = ascii ''10'' then Some (Fin 10) else if s = ascii ''30'' then Some (Fin 30)
        else if s = ascii ''40'' then Some (Fin 40) else None)
     (cwd_marker @ [10] @ icw_marker @ [10]
       @ heavy_bar # block_head @ ascii ''A'' @ right_bracket @ pre_op_marker @ [10]
       @ ascii ''R_B 1kHz=10dB'' @ [10] @ ascii ''R_A 1kHz=30dB'' @ [10] @ box_corner)
   = Inr [\<lparr>avg_abg = Fin 20, abg_values = [Fin 20], patient_id = ascii ''A_R'',
            freqs = [1000]\<rparr>] \<and>
   group_parse
     (\<lambda>s. if s = ascii ''1'' then Some (Fin 1) else if s = ascii ''2'' then Some (Fin 2)
        else if s = ascii ''10'' then Some (Fin 10) else if s = ascii ''30'' then Some (Fin 30)
        else if s = ascii ''40'' then Some (Fin 40) else None)
     (heavy_bar # block_head @ ascii ''A'' @ right_bracket @ pre_op_marker @ [10]
       @ ascii ''R_B 1kHz=10dB'' @ [10] @ ascii ''R_B 2kHz=10dB'' @ [10]
       @ ascii ''R_A 1kHz=30dB | 2kHz=40dB'' @ [10] @ box_corner)
     = [\<lparr>avg_abg = Fin 25, abg_values = [Fin 20, Fin 30]\<rparr>] \<and>
   load_all_patient_abg
     (\<lambda>s. if s = ascii ''1'' then Some (Fin 1) else if s = ascii ''2'' then Some (Fin 2)
        else if s = ascii ''10'' then Some (Fin 10) else if s = ascii ''30'' then Some (Fin 30)
        else if s = ascii ''40'' then Some (Fin 40) else None)
     (heavy_bar # block_head @ ascii ''A'' @ right_bracket @ pre_op_marker @ [10]
       @ ascii ''R_B 1kHz=10dB'' @ [10] @ ascii ''R_B 2kHz=10dB'' @ [10]
       @ ascii ''R_A 1kHz=30dB | 2kHz=40dB'' @ [10] @ box_corner)
     = Inr [\<lparr>avg_abg = Fin 30, abg_values = [Fin 30], patient_id = ascii ''A_R'',
              freqs = [2000]\<rparr>]"
  by (simp add: eval_simps)

end
